theory Spec2Isabelle
  imports Main "HOL-Library.Word"
begin

section \<open>Data model of package pvc\<close>

text \<open>
  The package converts storage specifications of a PostgreSQL cluster into
  PersistentVolumeClaims. The types of the packages it imports (crv1, operator, v1) are
  given here with the fields the package reads and writes.
\<close>

type_synonym int64 = "64 word"

record PgStorageSpec =
  Name :: string
  StorageClass :: string
  AccessMode :: string
  Size :: string
  StorageType :: string
  SupplementalGroups :: "int64 list"
  MatchLabels :: string

text \<open>
  Modelled from the spec: the accessor \<open>GetSupplementalGroups\<close> of \<open>crv1.PgStorageSpec\<close>
  is declared outside this package; the spec describes \<open>supplementalGroups\<close> as the
  ordered list of numeric group IDs of the storage specification.
\<close>

definition GetSupplementalGroups :: "PgStorageSpec \<Rightarrow> int64 list" where
  "GetSupplementalGroups spec = PgStorageSpec.SupplementalGroups spec"

record StorageResult =
  PersistentVolumeClaimName :: string
  SupplementalGroups :: "int64 list"

text \<open>The zero value of \<open>operator.StorageResult\<close>: what a named result holds until assigned,
  and what indexing a Go map yields at a key it does not hold.\<close>

definition zero_StorageResult :: StorageResult where
  "zero_StorageResult = \<lparr>PersistentVolumeClaimName = [], SupplementalGroups = []\<rparr>"

record PgclusterSpec =
  Name :: string
  WALStorage :: PgStorageSpec
  TablespaceMounts :: "string \<rightharpoonup> PgStorageSpec"

record Pgcluster =
  Spec :: PgclusterSpec

record matchLabelsTemplateFields =
  Key :: string
  Value :: string

record TemplateFields =
  Name :: string
  AccessMode :: string
  ClusterName :: string
  Size :: string
  StorageClass :: string
  MatchLabels :: string

record PersistentVolumeClaim =
  Name :: string
  Labels :: "string \<rightharpoonup> string"

text \<open>Indexing a Go \<open>map[string]string\<close>: the empty string at a key the map does not hold.\<close>

definition index_map :: "(string \<rightharpoonup> string) \<Rightarrow> string \<Rightarrow> string" where
  "index_map m k = (case m k of None \<Rightarrow> [] | Some v \<Rightarrow> v)"

text \<open>Indexing a Go \<open>map[string]operator.StorageResult\<close>.\<close>

definition index_results :: "(string \<rightharpoonup> StorageResult) \<Rightarrow> string \<Rightarrow> StorageResult" where
  "index_results m k = (case m k of None \<Rightarrow> zero_StorageResult | Some r \<Rightarrow> r)"

subsection \<open>Errors\<close>

text \<open>
  A Go \<open>error\<close> is a value: \<open>errorString\<close> is what \<open>errors.New\<close> builds, \<open>ExecError\<close> a
  failure of \<open>Template.Execute\<close>, \<open>UnmarshalError\<close> one of \<open>json.Unmarshal\<close>, and
  \<open>StatusError\<close> an answer of the orchestration API with its reason.
\<close>

datatype StatusReason =
  StatusReasonAlreadyExists | StatusReasonNotFound | StatusReasonForbidden | StatusReasonUnknown

datatype error =
  errorString string
  | ExecError string
  | UnmarshalError string
  | StatusError StatusReason string

fun Error :: "error \<Rightarrow> string" where
  "Error (errorString s) = s"
| "Error (ExecError s) = s"
| "Error (UnmarshalError s) = s"
| "Error (StatusError r s) = s"

text \<open>
  Modelled from the spec: \<open>kubeapi.IsAlreadyExists\<close> is declared outside this package; the
  orchestration-API client must classify "already exists" distinctly from other failures.
\<close>

fun IsAlreadyExists :: "error \<Rightarrow> bool" where
  "IsAlreadyExists (StatusError StatusReasonAlreadyExists s) = True"
| "IsAlreadyExists e = False"

subsection \<open>The world the package acts on\<close>

text \<open>
  Everything the package does besides returning values: the calls it makes to the
  orchestration API (in order), the claims the API holds per namespace and name, the
  entries it hands to the logger, and what it echoes to standard output.
\<close>

datatype api_call =
  CreateCall string PersistentVolumeClaim
  | GetCall string string
  | DeleteCall string string

datatype Level = DebugLevel | InfoLevel | ErrorLevel

record world =
  store :: "(string \<times> string) \<rightharpoonup> PersistentVolumeClaim"
  calls :: "api_call list"
  logs :: "(Level \<times> string) list"
  stdout :: string

definition log_Debug :: "string \<Rightarrow> world \<Rightarrow> world" where
  "log_Debug msg w = w\<lparr>logs := logs w @ [(DebugLevel, msg)]\<rparr>"

definition log_Error :: "string \<Rightarrow> world \<Rightarrow> world" where
  "log_Error msg w = w\<lparr>logs := logs w @ [(ErrorLevel, msg)]\<rparr>"

definition write_Stdout :: "string \<Rightarrow> world \<Rightarrow> world" where
  "write_Stdout out w = w\<lparr>stdout := stdout w @ out\<rparr>"

text \<open>
  What the package takes from the packages config, operator and encoding/json, and how the
  orchestration API fails for reasons of its own. A template's \<open>Execute\<close> gives the text it
  wrote and the error it returned, if any.
\<close>

record env =
  PVCStorageClassTemplate :: "TemplateFields \<Rightarrow> string \<times> error option"
  PVCTemplate :: "TemplateFields \<Rightarrow> string \<times> error option"
  PVCMatchLabelsTemplate :: "matchLabelsTemplateFields \<Rightarrow> string \<times> error option"
  Unmarshal :: "string \<Rightarrow> error + PersistentVolumeClaim"
  GetTablespacePVCName :: "string \<Rightarrow> string \<Rightarrow> string"
  CRUNCHY_DEBUG :: bool
  LABEL_PGREMOVE :: string
  create_fault :: "string \<Rightarrow> PersistentVolumeClaim \<Rightarrow> error option"
  get_fault :: "string \<Rightarrow> string \<Rightarrow> error option"
  delete_fault :: "string \<Rightarrow> string \<Rightarrow> error option"

subsection \<open>The orchestration-API client\<close>

text \<open>
  Modelled from the spec: the client's create operation
  \<open>clientset.CoreV1().PersistentVolumeClaims(namespace).Create\<close> is declared outside this
  package. \<open>createVolumeClaim(namespace, object) -> Error?\<close> reports "already exists" when
  the store holds a claim of that name in the namespace, and may fail otherwise
  (\<open>create_fault\<close>); when it succeeds the store holds the object.
\<close>

definition PersistentVolumeClaims_Create ::
  "env \<Rightarrow> world \<Rightarrow> string \<Rightarrow> PersistentVolumeClaim \<Rightarrow> error option \<times> world" where
  "PersistentVolumeClaims_Create env w namespace newpvc =
     (let w = w\<lparr>calls := calls w @ [CreateCall namespace newpvc]\<rparr> in
      if store w (namespace, PersistentVolumeClaim.Name newpvc) \<noteq> None
      then (Some (StatusError StatusReasonAlreadyExists
                    (''persistentvolumeclaims '' @ PersistentVolumeClaim.Name newpvc @ '' already exists'')), w)
      else (case create_fault env namespace newpvc of
              Some e \<Rightarrow> (Some e, w)
            | None \<Rightarrow>
                (None, w\<lparr>store := (store w)((namespace, PersistentVolumeClaim.Name newpvc) \<mapsto> newpvc)\<rparr>)))"

text \<open>
  Modelled from the spec: \<open>kubeapi.GetPVCIfExists\<close> is declared outside this package.
  \<open>getVolumeClaimIfExists(name, namespace) -> (object?, Error?)\<close>: the object when the store
  holds it, neither object nor error when it does not ("not found" is not an error), and
  the lookup's error when the lookup itself fails (\<open>get_fault\<close>).
\<close>

definition GetPVCIfExists ::
  "env \<Rightarrow> world \<Rightarrow> string \<Rightarrow> string \<Rightarrow> PersistentVolumeClaim option \<times> error option \<times> world" where
  "GetPVCIfExists env w name namespace =
     (let w = w\<lparr>calls := calls w @ [GetCall namespace name]\<rparr> in
      case get_fault env namespace name of
        Some e \<Rightarrow> (None, Some e, w)
      | None \<Rightarrow> (store w (namespace, name), None, w))"

text \<open>
  Modelled from the spec: \<open>kubeapi.DeletePVC\<close> is declared outside this package.
  \<open>deleteVolumeClaim(name, namespace) -> Error?\<close>: removes the claim from the store, or
  fails (\<open>delete_fault\<close>, or "not found" when the store does not hold it).
\<close>

definition DeletePVC :: "env \<Rightarrow> world \<Rightarrow> string \<Rightarrow> string \<Rightarrow> error option \<times> world" where
  "DeletePVC env w name namespace =
     (let w = w\<lparr>calls := calls w @ [DeleteCall namespace name]\<rparr> in
      case delete_fault env namespace name of
        Some e \<Rightarrow> (Some e, w)
      | None \<Rightarrow>
          (if store w (namespace, name) = None
           then (Some (StatusError StatusReasonNotFound
                         (''persistentvolumeclaims '' @ name @ '' not found'')), w)
           else (None, w\<lparr>store := (store w)((namespace, name) := None)\<rparr>)))"

section \<open>The package's functions\<close>

subsection \<open>strings.Split at a one-byte separator\<close>

text \<open>\<open>strings.Split(s, "=")\<close> gives the substrings between the separators: one more
  element than there are separators in \<open>s\<close>, so one (empty) element for the empty string.\<close>

fun Split :: "string \<Rightarrow> char \<Rightarrow> string list" where
  "Split [] sep = [[]]"
| "Split (c # cs) sep =
     (if c = sep then [] # Split cs sep
      else (case Split cs sep of
              [] \<Rightarrow> [[c]]
            | t # ts \<Rightarrow> (c # t) # ts))"

subsection \<open>getMatchLabels\<close>

definition getMatchLabels :: "env \<Rightarrow> world \<Rightarrow> string \<Rightarrow> string \<Rightarrow> string \<times> world" where
  "getMatchLabels env w key value =
     (let matchLabelsTemplateFields = \<lparr>Key = key, Value = value\<rparr>;
          (doc, err) = PVCMatchLabelsTemplate env matchLabelsTemplateFields
      in case err of
           Some e \<Rightarrow> ([], log_Error (Error e) w)
         | None \<Rightarrow> (doc, w))"

subsection \<open>Create\<close>

text \<open>
  \<open>rendered\<close> is the outcome of the \<open>if storageSpec.StorageType == "dynamic"\<close> statement:
  \<open>Inl\<close> when the function returns from inside it, otherwise the buffer \<open>doc2\<close> and \<open>err\<close>.
\<close>

definition Create ::
  "env \<Rightarrow> world \<Rightarrow> string \<Rightarrow> string \<Rightarrow> PgStorageSpec \<Rightarrow> string \<Rightarrow> error option \<times> world" where
  "Create env w name clusterName storageSpec namespace =
     (let w = log_Debug ''in createPVC'' w;
          pvcFields = \<lparr>TemplateFields.Name = name,
                       AccessMode = PgStorageSpec.AccessMode storageSpec,
                       ClusterName = clusterName,
                       Size = PgStorageSpec.Size storageSpec,
                       StorageClass = PgStorageSpec.StorageClass storageSpec,
                       MatchLabels = PgStorageSpec.MatchLabels storageSpec\<rparr>;
          rendered =
            (if StorageType storageSpec = ''dynamic'' then
               (let w = log_Debug ''using dynamic PVC template'' w;
                    (doc2, err) = PVCStorageClassTemplate env pvcFields;
                    w = (if CRUNCHY_DEBUG env
                         then write_Stdout (fst (PVCStorageClassTemplate env pvcFields)) w else w)
                in Inr (doc2, err, w))
             else
               (let w = log_Debug (''matchlabels from spec is ['' @
                                   PgStorageSpec.MatchLabels storageSpec @ '']'') w;
                    selector =
                      (if PgStorageSpec.MatchLabels storageSpec \<noteq> [] then
                         (let arr = Split (PgStorageSpec.MatchLabels storageSpec) CHR ''='' in
                          if length arr \<noteq> 2 then
                            Inl (errorString ''match labels is not formatted correctly'',
                                 log_Error (PgStorageSpec.MatchLabels storageSpec @
                                            '' MatchLabels is not formatted correctly'') w)
                          else
                            (let (ml, w) = getMatchLabels env w (arr ! 0) (arr ! 1);
                                 pvcFields = pvcFields\<lparr>TemplateFields.MatchLabels := ml\<rparr>;
                                 w = log_Debug (''matchlabels constructed is '' @ ml) w
                             in Inr (pvcFields, w)))
                       else Inr (pvcFields, w))
                in case selector of
                     Inl (e, w) \<Rightarrow> Inl (e, w)
                   | Inr (pvcFields, w) \<Rightarrow>
                       (let (doc2, err) = PVCTemplate env pvcFields;
                            w = (if CRUNCHY_DEBUG env
                                 then write_Stdout (fst (PVCTemplate env pvcFields)) w else w)
                        in Inr (doc2, err, w))))
      in case rendered of
           Inl (e, w) \<Rightarrow> (Some e, w)
         | Inr (doc2, err, w) \<Rightarrow>
             (case err of
                Some e \<Rightarrow> (Some e, log_Error (''error in pvc create exec'' @ Error e) w)
              | None \<Rightarrow>
                  (case Unmarshal env doc2 of
                     Inl e \<Rightarrow> (Some e, log_Error (''error unmarshalling json into PVC '' @ Error e) w)
                   | Inr newpvc \<Rightarrow> PersistentVolumeClaims_Create env w namespace newpvc)))"

subsection \<open>CreateIfNotExists\<close>

definition CreateIfNotExists ::
  "env \<Rightarrow> world \<Rightarrow> PgStorageSpec \<Rightarrow> string \<Rightarrow> string \<Rightarrow> string
     \<Rightarrow> StorageResult \<times> error option \<times> world" where
  "CreateIfNotExists env w spec pvcName clusterName namespace =
     (let result = \<lparr>PersistentVolumeClaimName = [],
                    SupplementalGroups = GetSupplementalGroups spec\<rparr>
      in if StorageType spec = [] \<or> StorageType spec = ''emptydir'' then
           (result, None, w)
         else if StorageType spec = ''existing'' then
           (result\<lparr>PersistentVolumeClaimName := PgStorageSpec.Name spec\<rparr>, None, w)
         else if StorageType spec = ''create'' \<or> StorageType spec = ''dynamic'' then
           (let result = result\<lparr>PersistentVolumeClaimName := pvcName\<rparr>;
                (err, w) = Create env w pvcName clusterName spec namespace
            in case err of
                 None \<Rightarrow> (result, None, w)
               | Some e \<Rightarrow>
                   (if \<not> IsAlreadyExists e
                    then (result, Some e, log_Error (''error in pvc create: '' @ Error e) w)
                    else (result, None, w)))
         else (result, None, w))"

subsection \<open>CreateMissingPostgreSQLVolumes\<close>

text \<open>
  The \<open>for ... range cluster.Spec.TablespaceMounts\<close> statement. Go leaves the order in which
  \<open>range\<close> visits the keys of a map open; \<open>order\<close> is the order the runtime takes in this
  run, an enumeration of the map's keys (\<open>range_order\<close>).
\<close>

definition range_order :: "('k \<rightharpoonup> 'v) \<Rightarrow> 'k list \<Rightarrow> bool" where
  "range_order m order \<longleftrightarrow> distinct order \<and> set order = dom m"

fun tablespace_loop ::
  "env \<Rightarrow> Pgcluster \<Rightarrow> string \<Rightarrow> string \<Rightarrow> string list
     \<Rightarrow> (string \<rightharpoonup> StorageResult) \<times> error option \<times> world
     \<Rightarrow> (string \<rightharpoonup> StorageResult) \<times> error option \<times> world" where
  "tablespace_loop env cluster namespace pvcNamePrefix [] (tablespaceVolumes, err, w) =
     (tablespaceVolumes, err, w)"
| "tablespace_loop env cluster namespace pvcNamePrefix (tablespaceName # order) (tablespaceVolumes, err, w) =
     (case TablespaceMounts (Spec cluster) tablespaceName of
        None \<Rightarrow> tablespace_loop env cluster namespace pvcNamePrefix order (tablespaceVolumes, err, w)
      | Some storageSpec \<Rightarrow>
          (if err = None then
             (let tablespacePVCName = GetTablespacePVCName env pvcNamePrefix tablespaceName;
                  (result, err, w) = CreateIfNotExists env w storageSpec tablespacePVCName
                                       (PgclusterSpec.Name (Spec cluster)) namespace
              in tablespace_loop env cluster namespace pvcNamePrefix order
                   (tablespaceVolumes(tablespaceName \<mapsto> result), err, w))
           else tablespace_loop env cluster namespace pvcNamePrefix order (tablespaceVolumes, err, w)))"

definition CreateMissingPostgreSQLVolumes ::
  "env \<Rightarrow> world \<Rightarrow> Pgcluster \<Rightarrow> string \<Rightarrow> string \<Rightarrow> PgStorageSpec \<Rightarrow> string list
     \<Rightarrow> StorageResult \<times> StorageResult \<times> (string \<rightharpoonup> StorageResult) \<times> error option \<times> world" where
  "CreateMissingPostgreSQLVolumes env w cluster namespace pvcNamePrefix dataStorageSpec order =
     (let (dataVolume, err, w) =
            CreateIfNotExists env w dataStorageSpec pvcNamePrefix
              (PgclusterSpec.Name (Spec cluster)) namespace;
          (walVolume, err, w) =
            (if err = None then
               CreateIfNotExists env w (WALStorage (Spec cluster)) (pvcNamePrefix @ ''-wal'')
                 (PgclusterSpec.Name (Spec cluster)) namespace
             else (zero_StorageResult, err, w));
          (tablespaceVolumes, err, w) =
            tablespace_loop env cluster namespace pvcNamePrefix order (Map.empty, err, w)
      in (dataVolume, walVolume, tablespaceVolumes, err, w))"

subsection \<open>DeleteIfExists\<close>

definition DeleteIfExists :: "env \<Rightarrow> world \<Rightarrow> string \<Rightarrow> string \<Rightarrow> error option \<times> world" where
  "DeleteIfExists env w name namespace =
     (let (pvc, err, w) = GetPVCIfExists env w name namespace in
      case pvc of
        None \<Rightarrow> (err, w)
      | Some p \<Rightarrow>
          (let w = log_Debug (''PVC '' @ PersistentVolumeClaim.Name p @ '' is found'') w in
           if index_map (Labels p) (LABEL_PGREMOVE env) = ''true'' then
             (let w = log_Debug (''delete PVC '' @ name @ '' in namespace '' @ namespace) w
              in DeletePVC env w name namespace)
           else (err, w)))"

section \<open>Definitions used to state and prove the properties\<close>

subsection \<open>The claim object Create submits\<close>

text \<open>
  What \<open>Create\<close> computes before it reaches the orchestration API: the error it returns
  without a call, or the claim object it submits. It reads the arguments only, never the
  world (lemma \<open>Create_effect\<close> ties it to \<open>Create\<close>).
\<close>

definition Create_manifest :: "env \<Rightarrow> string \<Rightarrow> string \<Rightarrow> PgStorageSpec \<Rightarrow> error + PersistentVolumeClaim" where
  "Create_manifest env name clusterName storageSpec =
     (let pvcFields = \<lparr>TemplateFields.Name = name,
                       AccessMode = PgStorageSpec.AccessMode storageSpec,
                       ClusterName = clusterName,
                       Size = PgStorageSpec.Size storageSpec,
                       StorageClass = PgStorageSpec.StorageClass storageSpec,
                       MatchLabels = PgStorageSpec.MatchLabels storageSpec\<rparr>;
          rendered =
            (if StorageType storageSpec = ''dynamic'' then Inr (PVCStorageClassTemplate env pvcFields)
             else if PgStorageSpec.MatchLabels storageSpec = [] then Inr (PVCTemplate env pvcFields)
             else
               (let arr = Split (PgStorageSpec.MatchLabels storageSpec) CHR ''='' in
                if length arr \<noteq> 2 then Inl (errorString ''match labels is not formatted correctly'')
                else Inr (PVCTemplate env
                       (pvcFields\<lparr>TemplateFields.MatchLabels :=
                           (case PVCMatchLabelsTemplate env \<lparr>Key = arr ! 0, Value = arr ! 1\<rparr> of
                              (doc, None) \<Rightarrow> doc
                            | (doc, Some e) \<Rightarrow> [])\<rparr>))))
      in case rendered of
           Inl e \<Rightarrow> Inl e
         | Inr (doc2, Some e) \<Rightarrow> Inl e
         | Inr (doc2, None) \<Rightarrow> Unmarshal env doc2)"

subsection \<open>Attempting volumes in a given order\<close>

text \<open>
  The spec's sequence of \<open>provision\<close>: the logical volumes are attempted one after the
  other in the order of the list, each in the world the one before left, and nothing is
  attempted after the first failure. The result pairs every attempted volume with its
  result, the failing one included.
\<close>

datatype volume = DataVolume | WALVolume | TablespaceVolume string

fun attempt_in_order ::
  "env \<Rightarrow> world \<Rightarrow> string \<Rightarrow> string \<Rightarrow> (volume \<times> PgStorageSpec \<times> string) list
     \<Rightarrow> (volume \<times> StorageResult) list \<times> error option \<times> world" where
  "attempt_in_order env w clusterName namespace [] = ([], None, w)"
| "attempt_in_order env w clusterName namespace ((v, spec, pvcName) # rest) =
     (case CreateIfNotExists env w spec pvcName clusterName namespace of
        (result, Some e, w') \<Rightarrow> ([(v, result)], Some e, w')
      | (result, None, w') \<Rightarrow>
          (case attempt_in_order env w' clusterName namespace rest of
             (results, err, w'') \<Rightarrow> ((v, result) # results, err, w'')))"

text \<open>The tablespaces the loop visits, in the order \<open>range\<close> yields their names, and then
  the whole sequence: data, WAL, tablespaces.\<close>

fun tablespace_steps ::
  "env \<Rightarrow> Pgcluster \<Rightarrow> string \<Rightarrow> string list \<Rightarrow> (volume \<times> PgStorageSpec \<times> string) list" where
  "tablespace_steps env cluster pvcNamePrefix [] = []"
| "tablespace_steps env cluster pvcNamePrefix (t # order) =
     (case TablespaceMounts (Spec cluster) t of
        None \<Rightarrow> tablespace_steps env cluster pvcNamePrefix order
      | Some storageSpec \<Rightarrow>
          (TablespaceVolume t, storageSpec, GetTablespacePVCName env pvcNamePrefix t)
            # tablespace_steps env cluster pvcNamePrefix order)"

definition volume_steps ::
  "env \<Rightarrow> Pgcluster \<Rightarrow> string \<Rightarrow> PgStorageSpec \<Rightarrow> string list
     \<Rightarrow> (volume \<times> PgStorageSpec \<times> string) list" where
  "volume_steps env cluster pvcNamePrefix dataStorageSpec order =
     (DataVolume, dataStorageSpec, pvcNamePrefix)
       # (WALVolume, WALStorage (Spec cluster), pvcNamePrefix @ ''-wal'')
       # tablespace_steps env cluster pvcNamePrefix order"

definition result_of :: "volume \<Rightarrow> (volume \<times> StorageResult) list \<Rightarrow> StorageResult" where
  "result_of v results = (case map_of results v of None \<Rightarrow> zero_StorageResult | Some r \<Rightarrow> r)"

subsection \<open>The spec's well-formed selector\<close>

text \<open>The spec's invariant on \<open>matchLabelsRaw\<close>: it splits into exactly two non-empty tokens
  on \<open>"="\<close>.\<close>

definition two_nonempty_tokens :: "string \<Rightarrow> bool" where
  "two_nonempty_tokens matchLabelsRaw =
     (case Split matchLabelsRaw CHR ''='' of
        [key, value] \<Rightarrow> key \<noteq> [] \<and> value \<noteq> []
      | _ \<Rightarrow> False)"

subsection \<open>A concrete environment\<close>

text \<open>
  Templates that render the claim's name, a parser that reads it back, an API that never
  fails for reasons of its own, and a world with no claims: the inputs at which the
  theorems below are instantiated.
\<close>

definition demo_env :: env where
  "demo_env = \<lparr>PVCStorageClassTemplate = (\<lambda>f. (TemplateFields.Name f, None)),
     PVCTemplate = (\<lambda>f. (TemplateFields.Name f, None)),
     PVCMatchLabelsTemplate = (\<lambda>f. (Key f @ '': '' @ Value f, None)),
     Unmarshal = (\<lambda>doc. if doc = [] then Inl (UnmarshalError ''unexpected end of JSON input'')
                         else Inr \<lparr>PersistentVolumeClaim.Name = doc, Labels = Map.empty\<rparr>),
     GetTablespacePVCName = (\<lambda>prefix name. prefix @ ''-tablespace-'' @ name),
     CRUNCHY_DEBUG = False,
     LABEL_PGREMOVE = ''pg-remove'',
     create_fault = (\<lambda>namespace pvc. None),
     get_fault = (\<lambda>namespace name. None),
     delete_fault = (\<lambda>namespace name. None)\<rparr>"

definition empty_world :: world where
  "empty_world = \<lparr>store = Map.empty, calls = [], logs = [], stdout = []\<rparr>"

definition demo_spec :: "string \<Rightarrow> string \<Rightarrow> string \<Rightarrow> PgStorageSpec" where
  "demo_spec storageType name matchLabels =
     \<lparr>PgStorageSpec.Name = name, StorageClass = ''standard'', AccessMode = ''ReadWriteOnce'',
      Size = ''1G'', StorageType = storageType, SupplementalGroups = [65534],
      MatchLabels = matchLabels\<rparr>"

text \<open>A cluster with three tablespaces: the selector of \<open>"a"\<close> is malformed, \<open>"b"\<close> and \<open>"c"\<close>
  can be provisioned.\<close>

definition demo_cluster :: Pgcluster where
  "demo_cluster =
     \<lparr>Spec = \<lparr>PgclusterSpec.Name = ''c1'',
              WALStorage = demo_spec ''create'' [] [],
              TablespaceMounts = [''a'' \<mapsto> demo_spec ''create'' [] ''onlykey'',
                                  ''b'' \<mapsto> demo_spec ''dynamic'' [] [],
                                  ''c'' \<mapsto> demo_spec ''create'' [] ''env=prod'']\<rparr>\<rparr>"

text \<open>A claim that carries the removal label with the given value, and a world that holds it
  in namespace \<open>"ns"\<close>.\<close>

definition demo_claim :: "string \<Rightarrow> string \<Rightarrow> PersistentVolumeClaim" where
  "demo_claim name remove =
     \<lparr>PersistentVolumeClaim.Name = name, Labels = [''pg-remove'' \<mapsto> remove]\<rparr>"

definition demo_world :: "PersistentVolumeClaim \<Rightarrow> world" where
  "demo_world p =
     \<lparr>store = [(''ns'', PersistentVolumeClaim.Name p) \<mapsto> p], calls = [], logs = [], stdout = []\<rparr>"

section \<open>Lemmas\<close>

lemmas demo_defs = demo_env_def empty_world_def demo_spec_def

text \<open>Logging and echoing touch neither the store nor the list of API calls.\<close>

lemma log_world [simp]:
  "store (log_Debug m w) = store w" "calls (log_Debug m w) = calls w"
  "store (log_Error m w) = store w" "calls (log_Error m w) = calls w"
  "store (write_Stdout s w) = store w" "calls (write_Stdout s w) = calls w"
  by (simp_all add: log_Debug_def log_Error_def write_Stdout_def)

text \<open>The create operation: its error, the store and the calls it leaves.\<close>

lemma PersistentVolumeClaims_Create_fst:
  "fst (PersistentVolumeClaims_Create env w namespace p) =
     (if store w (namespace, PersistentVolumeClaim.Name p) \<noteq> None
      then Some (StatusError StatusReasonAlreadyExists
                   (''persistentvolumeclaims '' @ PersistentVolumeClaim.Name p @ '' already exists''))
      else create_fault env namespace p)"
  by (simp add: PersistentVolumeClaims_Create_def Let_def split: option.splits)

lemma PersistentVolumeClaims_Create_store:
  "store (snd (PersistentVolumeClaims_Create env w namespace p)) =
     (if store w (namespace, PersistentVolumeClaim.Name p) = None \<and> create_fault env namespace p = None
      then (store w)((namespace, PersistentVolumeClaim.Name p) \<mapsto> p) else store w)"
  by (simp add: PersistentVolumeClaims_Create_def Let_def split: option.splits)

lemma PersistentVolumeClaims_Create_calls:
  "calls (snd (PersistentVolumeClaims_Create env w namespace p)) = calls w @ [CreateCall namespace p]"
  by (simp add: PersistentVolumeClaims_Create_def Let_def split: option.splits)

lemmas PersistentVolumeClaims_Create_proj =
  PersistentVolumeClaims_Create_fst PersistentVolumeClaims_Create_store
  PersistentVolumeClaims_Create_calls

text \<open>
  \<open>Create\<close> returns the error of \<open>Create_manifest\<close> without an API call, or submits the
  object of \<open>Create_manifest\<close> in one create call and returns that call's error.
\<close>

lemma Create_effect:
  "fst (Create env w name clusterName storageSpec namespace) =
     (case Create_manifest env name clusterName storageSpec of
        Inl e \<Rightarrow> Some e
      | Inr newpvc \<Rightarrow> fst (PersistentVolumeClaims_Create env w namespace newpvc)) \<and>
   store (snd (Create env w name clusterName storageSpec namespace)) =
     (case Create_manifest env name clusterName storageSpec of
        Inl e \<Rightarrow> store w
      | Inr newpvc \<Rightarrow> store (snd (PersistentVolumeClaims_Create env w namespace newpvc))) \<and>
   calls (snd (Create env w name clusterName storageSpec namespace)) =
     (case Create_manifest env name clusterName storageSpec of
        Inl e \<Rightarrow> calls w
      | Inr newpvc \<Rightarrow> calls w @ [CreateCall namespace newpvc])"
proof (cases "StorageType storageSpec = ''dynamic''")
  case True
  obtain doc2 err where t: "PVCStorageClassTemplate env
      \<lparr>TemplateFields.Name = name, AccessMode = PgStorageSpec.AccessMode storageSpec,
       ClusterName = clusterName, Size = PgStorageSpec.Size storageSpec,
       StorageClass = PgStorageSpec.StorageClass storageSpec,
       MatchLabels = PgStorageSpec.MatchLabels storageSpec\<rparr> = (doc2, err)"
    by (meson surj_pair)
  show ?thesis
  proof (cases err)
    case None
    with True t show ?thesis
      by (cases "Unmarshal env doc2")
         (auto simp: Create_def Create_manifest_def Let_def PersistentVolumeClaims_Create_proj)
  next
    case (Some e)
    with True t show ?thesis
      by (simp add: Create_def Create_manifest_def Let_def)
  qed
next
  case dyn: False
  show ?thesis
  proof (cases "PgStorageSpec.MatchLabels storageSpec = []")
    case True
    obtain doc2 err where t: "PVCTemplate env
      \<lparr>TemplateFields.Name = name, AccessMode = PgStorageSpec.AccessMode storageSpec,
       ClusterName = clusterName, Size = PgStorageSpec.Size storageSpec,
       StorageClass = PgStorageSpec.StorageClass storageSpec,
       MatchLabels = []\<rparr> = (doc2, err)"
      by (meson surj_pair)
    show ?thesis
    proof (cases err)
      case None
      with dyn True t show ?thesis
        by (cases "Unmarshal env doc2")
           (auto simp: Create_def Create_manifest_def Let_def PersistentVolumeClaims_Create_proj)
    next
      case (Some e)
      with dyn True t show ?thesis
        by (simp add: Create_def Create_manifest_def Let_def)
    qed
  next
    case ml: False
    show ?thesis
    proof (cases "length (Split (PgStorageSpec.MatchLabels storageSpec) CHR ''='') = 2")
      case False
      with dyn ml show ?thesis
        by (simp add: Create_def Create_manifest_def Let_def)
    next
      case True
      obtain sel serr where m: "PVCMatchLabelsTemplate env
           \<lparr>Key = Split (PgStorageSpec.MatchLabels storageSpec) CHR ''='' ! 0,
            Value = Split (PgStorageSpec.MatchLabels storageSpec) CHR ''='' ! 1\<rparr> = (sel, serr)"
        by (meson surj_pair)
      obtain doc2 err where t: "PVCTemplate env
        \<lparr>TemplateFields.Name = name, AccessMode = PgStorageSpec.AccessMode storageSpec,
         ClusterName = clusterName, Size = PgStorageSpec.Size storageSpec,
         StorageClass = PgStorageSpec.StorageClass storageSpec,
         MatchLabels = (case serr of None \<Rightarrow> sel | Some e \<Rightarrow> [])\<rparr> = (doc2, err)"
        by (meson surj_pair)
      show ?thesis
      proof (cases err)
        case None
        with dyn ml True m t show ?thesis
          by (cases "Unmarshal env doc2"; cases serr)
             (auto simp: Create_def Create_manifest_def Let_def getMatchLabels_def
                PersistentVolumeClaims_Create_proj)
      next
        case (Some e)
        with dyn ml True m t show ?thesis
          by (cases serr) (simp_all add: Create_def Create_manifest_def Let_def getMatchLabels_def)
      qed
    qed
  qed
qed

text \<open>The loop: after a failure it changes nothing; it can be cut in two; while nothing
  fails it adds one key per tablespace visited.\<close>

lemma tablespace_loop_failed:
  "tablespace_loop env cluster namespace prefix order (tv, Some e, w) = (tv, Some e, w)"
  by (induction order) (simp_all split: option.splits)

lemma tablespace_loop_append:
  "tablespace_loop env cluster namespace prefix (xs @ ys) st =
     tablespace_loop env cluster namespace prefix ys
       (tablespace_loop env cluster namespace prefix xs st)"
proof (induction xs arbitrary: st)
  case Nil
  show ?case by (cases st) simp
next
  case (Cons x xs)
  obtain tv err w where st: "st = (tv, err, w)" by (cases st)
  show ?case unfolding st
    by (simp add: Cons.IH Let_def split: option.splits prod.splits)
qed

lemma tablespace_loop_dom:
  "tablespace_loop env cluster namespace prefix order (tv, None, w) = (tv', None, w') \<Longrightarrow>
     dom tv' = dom tv \<union> (set order \<inter> dom (TablespaceMounts (Spec cluster)))"
proof (induction order arbitrary: tv w)
  case Nil
  then show ?case by simp
next
  case (Cons t order)
  show ?case
  proof (cases "TablespaceMounts (Spec cluster) t")
    case None
    with Cons.prems have "tablespace_loop env cluster namespace prefix order (tv, None, w) = (tv', None, w')"
      by simp
    from Cons.IH [OF this] None show ?thesis by auto
  next
    case (Some storageSpec)
    obtain r err1 w1 where c: "CreateIfNotExists env w storageSpec (GetTablespacePVCName env prefix t)
        (PgclusterSpec.Name (Spec cluster)) namespace = (r, err1, w1)"
      by (metis prod_cases3)
    with Cons.prems Some have l: "tablespace_loop env cluster namespace prefix order (tv(t \<mapsto> r), err1, w1) = (tv', None, w')"
      by simp
    have "err1 = None"
    proof (cases err1)
      case (Some e)
      with l show ?thesis by (simp add: tablespace_loop_failed)
    qed simp
    with l have "dom tv' = dom (tv(t \<mapsto> r)) \<union> (set order \<inter> dom (TablespaceMounts (Spec cluster)))"
      using Cons.IH by blast
    with Some show ?thesis by auto
  qed
qed

text \<open>The loop attempts the tablespaces in the order of the list.\<close>

lemma attempt_in_order_keys:
  "attempt_in_order env w clusterName namespace steps = (results, err, w') \<Longrightarrow>
     fst ` set results \<subseteq> fst ` set steps"
proof (induction steps arbitrary: w results err w')
  case Nil
  then show ?case by simp
next
  case (Cons s steps)
  obtain v spec pvcName where s: "s = (v, spec, pvcName)" by (cases s)
  obtain r err1 w1 where c: "CreateIfNotExists env w spec pvcName clusterName namespace = (r, err1, w1)"
    by (metis prod_cases3)
  show ?case
  proof (cases err1)
    case (Some e)
    with Cons.prems s c show ?thesis by auto
  next
    case None
    obtain rs err2 w2 where a: "attempt_in_order env w1 clusterName namespace steps = (rs, err2, w2)"
      by (metis prod_cases3)
    from Cons.IH [OF a] have "fst ` set rs \<subseteq> fst ` set steps" .
    moreover from Cons.prems s c None a have "results = (v, r) # rs" by simp
    ultimately show ?thesis using s by auto
  qed
qed

lemma tablespace_steps_keys:
  "fst ` set (tablespace_steps env cluster prefix order) \<subseteq> TablespaceVolume ` set order"
  by (induction order) (auto split: option.splits)

lemma tablespace_loop_attempts:
  "distinct order \<Longrightarrow>
     tablespace_loop env cluster namespace prefix order (tv, None, w) =
       (case attempt_in_order env w (PgclusterSpec.Name (Spec cluster)) namespace
               (tablespace_steps env cluster prefix order) of
          (results, err, w') \<Rightarrow> (tv ++ (\<lambda>t. map_of results (TablespaceVolume t)), err, w'))"
proof (induction order arbitrary: tv w)
  case Nil
  then show ?case by simp
next
  case (Cons t order)
  show ?case
  proof (cases "TablespaceMounts (Spec cluster) t")
    case None
    with Cons show ?thesis by simp
  next
    case (Some storageSpec)
    obtain r err1 w1 where c: "CreateIfNotExists env w storageSpec (GetTablespacePVCName env prefix t)
        (PgclusterSpec.Name (Spec cluster)) namespace = (r, err1, w1)"
      by (metis prod_cases3)
    show ?thesis
    proof (cases err1)
      case e: (Some e)
      have "tv ++ (\<lambda>t'. map_of [(TablespaceVolume t, r)] (TablespaceVolume t')) = tv(t \<mapsto> r)"
        by (rule ext) (simp add: map_add_def)
      with Some c e show ?thesis
        by (simp add: tablespace_loop_failed)
    next
      case None
      obtain rs err2 w2 where a: "attempt_in_order env w1 (PgclusterSpec.Name (Spec cluster)) namespace
           (tablespace_steps env cluster prefix order) = (rs, err2, w2)"
        by (metis prod_cases3)
      from attempt_in_order_keys [OF a] tablespace_steps_keys [of env cluster prefix order] Cons.prems
      have "TablespaceVolume t \<notin> fst ` set rs" by auto
      then have n: "map_of rs (TablespaceVolume t) = None"
        by (simp add: map_of_eq_None_iff)
      have "(tv(t \<mapsto> r)) ++ (\<lambda>t'. map_of rs (TablespaceVolume t')) =
            tv ++ (\<lambda>t'. map_of ((TablespaceVolume t, r) # rs) (TablespaceVolume t'))"
        by (rule ext) (simp add: map_add_def n split: option.splits)
      with Cons Some c None a show ?thesis by simp
    qed
  qed
qed

text \<open>When nothing fails every volume of the sequence has its result in the list, in the
  order of the sequence; the tablespaces of a list of declared names are all in it.\<close>

lemma attempt_in_order_success_keys:
  "attempt_in_order env w clusterName namespace steps = (results, None, w') \<Longrightarrow>
     map fst results = map fst steps"
proof (induction steps arbitrary: w results w')
  case Nil
  then show ?case by simp
next
  case (Cons s steps)
  obtain v spec pvcName where s: "s = (v, spec, pvcName)" by (cases s)
  obtain r err1 w1 where c: "CreateIfNotExists env w spec pvcName clusterName namespace = (r, err1, w1)"
    by (metis prod_cases3)
  show ?case
  proof (cases err1)
    case (Some e)
    with Cons.prems s c show ?thesis by simp
  next
    case None
    obtain rs err2 w2 where a: "attempt_in_order env w1 clusterName namespace steps = (rs, err2, w2)"
      by (metis prod_cases3)
    with Cons.prems s c None have e: "results = (v, r) # rs" "err2 = None" by simp_all
    from a e(2) Cons.IH have "map fst rs = map fst steps" by blast
    with e(1) s show ?thesis by simp
  qed
qed

lemma tablespace_steps_declared:
  "set order \<subseteq> dom (TablespaceMounts (Spec cluster)) \<Longrightarrow>
     map fst (tablespace_steps env cluster prefix order) = map TablespaceVolume order"
  by (induction order) (auto split: option.splits)

text \<open>\<open>Split\<close> gives two tokens exactly when the string holds one separator.\<close>

lemma Split_length: "length (Split s sep) = Suc (count_list s sep)"
  by (induction s) (auto split: list.splits)

text \<open>The \<open>"create"\<close>, \<open>"dynamic"\<close> case of \<open>CreateIfNotExists\<close>.\<close>

lemma CreateIfNotExists_create:
  "StorageType spec = ''create'' \<or> StorageType spec = ''dynamic'' \<Longrightarrow>
     CreateIfNotExists env w spec pvcName clusterName namespace =
       (case Create env w pvcName clusterName spec namespace of
          (None, w') \<Rightarrow>
            (\<lparr>PersistentVolumeClaimName = pvcName, SupplementalGroups = GetSupplementalGroups spec\<rparr>,
             None, w')
        | (Some e, w') \<Rightarrow>
            (if IsAlreadyExists e
             then (\<lparr>PersistentVolumeClaimName = pvcName,
                    SupplementalGroups = GetSupplementalGroups spec\<rparr>, None, w')
             else (\<lparr>PersistentVolumeClaimName = pvcName,
                    SupplementalGroups = GetSupplementalGroups spec\<rparr>, Some e,
                   log_Error (''error in pvc create: '' @ Error e) w')))"
  by (auto simp: CreateIfNotExists_def Let_def split: prod.splits option.splits)

text \<open>The definitions a concrete run unfolds.\<close>

lemmas run_defs =
  CreateIfNotExists_def Create_def getMatchLabels_def PersistentVolumeClaims_Create_def
  GetSupplementalGroups_def log_Debug_def log_Error_def write_Stdout_def Let_def

text \<open>Two of the orders in which \<open>range\<close> may visit the tablespaces of \<open>demo_cluster\<close>.\<close>

lemma demo_range_order:
  "range_order (TablespaceMounts (Spec demo_cluster)) [''a'', ''b'', ''c'']"
  "range_order (TablespaceMounts (Spec demo_cluster)) [''b'', ''a'', ''c'']"
  by (auto simp: range_order_def demo_cluster_def)

section \<open>The properties\<close>

text \<open>
  C6. For a spec whose storage type is \<open>""\<close> or \<open>"emptydir"\<close>, \<open>CreateIfNotExists\<close> returns
  an empty claim name, and for \<open>"existing"\<close> the claim name is the spec's name; in both
  cases it returns no error and leaves the world as it found it, so it makes no call to
  the orchestration API.
\<close>

theorem CreateIfNotExists_no_create:
  "(StorageType spec = [] \<or> StorageType spec = ''emptydir'' \<longrightarrow>
      CreateIfNotExists env w spec pvcName clusterName namespace =
        (\<lparr>PersistentVolumeClaimName = [], SupplementalGroups = GetSupplementalGroups spec\<rparr>,
         None, w)) \<and>
   (StorageType spec = ''existing'' \<longrightarrow>
      CreateIfNotExists env w spec pvcName clusterName namespace =
        (\<lparr>PersistentVolumeClaimName = PgStorageSpec.Name spec,
          SupplementalGroups = GetSupplementalGroups spec\<rparr>, None, w))"
  by (simp add: CreateIfNotExists_def)

text \<open>The two cases at concrete specs.\<close>

theorem CreateIfNotExists_no_create_witness:
  "CreateIfNotExists demo_env empty_world (demo_spec ''emptydir'' ''olddata'' []) ''pvc1'' ''c1'' ''ns'' =
     (\<lparr>PersistentVolumeClaimName = [], SupplementalGroups = [65534]\<rparr>, None, empty_world) \<and>
   CreateIfNotExists demo_env empty_world (demo_spec ''existing'' ''olddata'' []) ''pvc1'' ''c1'' ''ns'' =
     (\<lparr>PersistentVolumeClaimName = ''olddata'', SupplementalGroups = [65534]\<rparr>, None, empty_world) \<and>
   calls empty_world = []"
  using CreateIfNotExists_no_create
          [of "demo_spec ''emptydir'' ''olddata'' []" demo_env empty_world "''pvc1''" "''c1''" "''ns''"]
        CreateIfNotExists_no_create
          [of "demo_spec ''existing'' ''olddata'' []" demo_env empty_world "''pvc1''" "''c1''" "''ns''"]
  by (simp add: demo_spec_def GetSupplementalGroups_def empty_world_def)

text \<open>
  C9. A storage type outside \<open>""\<close>, \<open>"emptydir"\<close>, \<open>"existing"\<close>, \<open>"create"\<close>, \<open>"dynamic"\<close>
  matches no case of the switch: \<open>CreateIfNotExists\<close> returns an empty claim name and the
  spec's supplemental groups, no error, and leaves the world as it found it.
\<close>

theorem CreateIfNotExists_unknown_type:
  "StorageType spec \<notin> {[], ''emptydir'', ''existing'', ''create'', ''dynamic''} \<Longrightarrow>
     CreateIfNotExists env w spec pvcName clusterName namespace =
       (\<lparr>PersistentVolumeClaimName = [], SupplementalGroups = GetSupplementalGroups spec\<rparr>,
        None, w)"
  by (simp add: CreateIfNotExists_def)

text \<open>The storage type \<open>"Create"\<close>, with a capital letter, is such a type.\<close>

theorem CreateIfNotExists_unknown_type_witness:
  "StorageType (demo_spec ''Create'' ''olddata'' []) \<notin> {[], ''emptydir'', ''existing'', ''create'', ''dynamic''} \<and>
   CreateIfNotExists demo_env empty_world (demo_spec ''Create'' ''olddata'' []) ''pvc1'' ''c1'' ''ns'' =
     (\<lparr>PersistentVolumeClaimName = [], SupplementalGroups = [65534]\<rparr>, None, empty_world)"
proof -
  have h: "StorageType (demo_spec ''Create'' ''olddata'' []) \<notin> {[], ''emptydir'', ''existing'', ''create'', ''dynamic''}"
    by (simp add: demo_spec_def)
  from h CreateIfNotExists_unknown_type [OF h, of demo_env empty_world "''pvc1''" "''c1''" "''ns''"]
  show ?thesis by (simp add: demo_spec_def GetSupplementalGroups_def)
qed

text \<open>
  C10. When \<open>CreateIfNotExists\<close> returns an error for a \<open>"create"\<close> or \<open>"dynamic"\<close> spec, the
  result returned with it already holds the requested claim name and the spec's
  supplemental groups.
\<close>

theorem CreateIfNotExists_error_result:
  "StorageType spec = ''create'' \<or> StorageType spec = ''dynamic'' \<Longrightarrow>
   CreateIfNotExists env w spec pvcName clusterName namespace = (result, Some e, w') \<Longrightarrow>
     PersistentVolumeClaimName result = pvcName \<and>
     StorageResult.SupplementalGroups result = GetSupplementalGroups spec"
  by (auto simp: CreateIfNotExists_create split: prod.splits option.splits if_splits)

text \<open>A run that fails: the selector \<open>"onlykey"\<close> has no \<open>"="\<close>.\<close>

lemma demo_malformed:
  "CreateIfNotExists demo_env empty_world (demo_spec ''create'' [] ''onlykey'') ''pvc1'' ''c1'' ''ns'' =
     (\<lparr>PersistentVolumeClaimName = ''pvc1'', SupplementalGroups = [65534]\<rparr>,
      Some (errorString ''match labels is not formatted correctly''),
      \<lparr>store = Map.empty, calls = [],
       logs = [(DebugLevel, ''in createPVC''),
               (DebugLevel, ''matchlabels from spec is [onlykey]''),
               (ErrorLevel, ''onlykey MatchLabels is not formatted correctly''),
               (ErrorLevel, ''error in pvc create: match labels is not formatted correctly'')],
       stdout = []\<rparr>)"
  by (simp add: CreateIfNotExists_def Create_def demo_defs Let_def log_Debug_def log_Error_def
        GetSupplementalGroups_def)

text \<open>There an error and the non-empty claim name \<open>"pvc1"\<close> come back together.\<close>

theorem CreateIfNotExists_error_result_witness:
  "StorageType (demo_spec ''create'' [] ''onlykey'') = ''create'' \<and>
   fst (snd (CreateIfNotExists demo_env empty_world (demo_spec ''create'' [] ''onlykey'')
               ''pvc1'' ''c1'' ''ns'')) \<noteq> None \<and>
   PersistentVolumeClaimName
     (fst (CreateIfNotExists demo_env empty_world (demo_spec ''create'' [] ''onlykey'')
             ''pvc1'' ''c1'' ''ns'')) = ''pvc1'' \<and>
   StorageResult.SupplementalGroups
     (fst (CreateIfNotExists demo_env empty_world (demo_spec ''create'' [] ''onlykey'')
             ''pvc1'' ''c1'' ''ns'')) = [65534]"
proof -
  have h: "StorageType (demo_spec ''create'' [] ''onlykey'') = ''create'' \<or>
           StorageType (demo_spec ''create'' [] ''onlykey'') = ''dynamic''"
    by (simp add: demo_spec_def)
  from CreateIfNotExists_error_result [OF h demo_malformed]
  show ?thesis by (simp add: demo_malformed) (simp add: demo_spec_def GetSupplementalGroups_def)
qed

text \<open>C4 as stated fails: a spec of type \<open>"existing"\<close> with an empty name gives an empty claim
  name and no error.\<close>

theorem CreateIfNotExists_claimName_counterexample:
  "CreateIfNotExists demo_env empty_world (demo_spec ''existing'' [] []) ''pvc1'' ''c1'' ''ns'' =
     (\<lparr>PersistentVolumeClaimName = [], SupplementalGroups = [65534]\<rparr>, None, empty_world) \<and>
   \<not> (PersistentVolumeClaimName
         (fst (CreateIfNotExists demo_env empty_world (demo_spec ''existing'' [] []) ''pvc1'' ''c1'' ''ns'')) \<noteq> []
       \<longleftrightarrow> StorageType (demo_spec ''existing'' [] []) \<in> {''existing'', ''create'', ''dynamic''})"
  by (simp add: CreateIfNotExists_def demo_spec_def GetSupplementalGroups_def)

text \<open>
  C4, amended. For a result returned without error, the claim name is non-empty exactly
  when the storage type is \<open>"existing"\<close> and the spec's name is non-empty, or the storage
  type is \<open>"create"\<close> or \<open>"dynamic"\<close> and the requested claim name is non-empty.
\<close>

theorem CreateIfNotExists_claimName:
  "CreateIfNotExists env w spec pvcName clusterName namespace = (result, None, w') \<Longrightarrow>
     (PersistentVolumeClaimName result \<noteq> [] \<longleftrightarrow>
        StorageType spec = ''existing'' \<and> PgStorageSpec.Name spec \<noteq> [] \<or>
        (StorageType spec = ''create'' \<or> StorageType spec = ''dynamic'') \<and> pvcName \<noteq> [])"
  by (auto simp: CreateIfNotExists_def Let_def split: prod.splits option.splits if_splits)

text \<open>An \<open>"existing"\<close> spec named \<open>"olddata"\<close>.\<close>

theorem CreateIfNotExists_claimName_witness:
  "CreateIfNotExists demo_env empty_world (demo_spec ''existing'' ''olddata'' []) ''pvc1'' ''c1'' ''ns'' =
     (\<lparr>PersistentVolumeClaimName = ''olddata'', SupplementalGroups = [65534]\<rparr>, None, empty_world) \<and>
   (PersistentVolumeClaimName \<lparr>PersistentVolumeClaimName = ''olddata'', SupplementalGroups = [65534]\<rparr> \<noteq> [] \<longleftrightarrow>
      StorageType (demo_spec ''existing'' ''olddata'' []) = ''existing'' \<and>
        PgStorageSpec.Name (demo_spec ''existing'' ''olddata'' []) \<noteq> [] \<or>
      (StorageType (demo_spec ''existing'' ''olddata'' []) = ''create'' \<or>
       StorageType (demo_spec ''existing'' ''olddata'' []) = ''dynamic'') \<and> ''pvc1'' \<noteq> [])"
proof -
  have h: "CreateIfNotExists demo_env empty_world (demo_spec ''existing'' ''olddata'' []) ''pvc1'' ''c1'' ''ns'' =
     (\<lparr>PersistentVolumeClaimName = ''olddata'', SupplementalGroups = [65534]\<rparr>, None, empty_world)"
    by (simp add: CreateIfNotExists_def demo_spec_def GetSupplementalGroups_def)
  from h CreateIfNotExists_claimName [OF h] show ?thesis by blast
qed

text \<open>
  C8. If rendering the match-labels template fails, \<open>getMatchLabels\<close> returns the empty
  string and hands the error's message to the logger at error level, which is all it
  does; otherwise it returns the rendered text and leaves the world as it found it. Its
  result has no error component.
\<close>

theorem getMatchLabels_swallows_error:
  "(PVCMatchLabelsTemplate env \<lparr>Key = key, Value = value\<rparr> = (doc, Some e) \<longrightarrow>
      getMatchLabels env w key value = ([], w\<lparr>logs := logs w @ [(ErrorLevel, Error e)]\<rparr>)) \<and>
   (PVCMatchLabelsTemplate env \<lparr>Key = key, Value = value\<rparr> = (doc, None) \<longrightarrow>
      getMatchLabels env w key value = (doc, w))"
  by (simp add: getMatchLabels_def log_Error_def)

text \<open>A template that renders, and one that fails after writing part of its output.\<close>

theorem getMatchLabels_swallows_error_witness:
  "getMatchLabels demo_env empty_world ''env'' ''prod'' = (''env: prod'', empty_world) \<and>
   getMatchLabels (demo_env\<lparr>PVCMatchLabelsTemplate := (\<lambda>f. (''env: '', Some (ExecError ''no value'')))\<rparr>)
       empty_world ''env'' ''prod'' =
     ([], empty_world\<lparr>logs := [(ErrorLevel, ''no value'')]\<rparr>)"
  using getMatchLabels_swallows_error [of demo_env "''env''" "''prod''" "''env: prod''" _ empty_world]
        getMatchLabels_swallows_error
          [of "demo_env\<lparr>PVCMatchLabelsTemplate := (\<lambda>f. (''env: '', Some (ExecError ''no value'')))\<rparr>"
              "''env''" "''prod''" "''env: ''" "ExecError ''no value''" empty_world]
  by (simp add: demo_env_def empty_world_def)

text \<open>
  C1. For a \<open>"create"\<close> or \<open>"dynamic"\<close> spec: when \<open>Create\<close> returns an error that the client
  classifies as "already exists", \<open>CreateIfNotExists\<close> returns no error and the requested
  claim name; any other error of \<open>Create\<close> is returned as it is; and when a call has
  returned without error, a second call with the same arguments in the world the first one
  left returns the same result without error and leaves the store as it is.
\<close>

theorem CreateIfNotExists_already_exists:
  assumes "StorageType spec = ''create'' \<or> StorageType spec = ''dynamic''"
  shows
    "(Create env w pvcName clusterName spec namespace = (Some e, w') \<and> IsAlreadyExists e \<longrightarrow>
        CreateIfNotExists env w spec pvcName clusterName namespace =
          (\<lparr>PersistentVolumeClaimName = pvcName,
            SupplementalGroups = GetSupplementalGroups spec\<rparr>, None, w')) \<and>
     (Create env w pvcName clusterName spec namespace = (Some e, w') \<and> \<not> IsAlreadyExists e \<longrightarrow>
        fst (snd (CreateIfNotExists env w spec pvcName clusterName namespace)) = Some e) \<and>
     (CreateIfNotExists env w spec pvcName clusterName namespace = (result, None, w1) \<longrightarrow>
        fst (CreateIfNotExists env w1 spec pvcName clusterName namespace) = result \<and>
        fst (snd (CreateIfNotExists env w1 spec pvcName clusterName namespace)) = None \<and>
        store (snd (snd (CreateIfNotExists env w1 spec pvcName clusterName namespace))) = store w1)"
proof (intro conjI impI)
  assume "Create env w pvcName clusterName spec namespace = (Some e, w') \<and> IsAlreadyExists e"
  with assms show "CreateIfNotExists env w spec pvcName clusterName namespace =
          (\<lparr>PersistentVolumeClaimName = pvcName,
            SupplementalGroups = GetSupplementalGroups spec\<rparr>, None, w')"
    by (simp add: CreateIfNotExists_create)
next
  assume "Create env w pvcName clusterName spec namespace = (Some e, w') \<and> \<not> IsAlreadyExists e"
  with assms show "fst (snd (CreateIfNotExists env w spec pvcName clusterName namespace)) = Some e"
    by (simp add: CreateIfNotExists_create)
next
  assume first: "CreateIfNotExists env w spec pvcName clusterName namespace = (result, None, w1)"
  let ?m = "Create_manifest env pvcName clusterName spec"
  let ?c = "Create env w pvcName clusterName spec namespace"
  let ?c1 = "Create env w1 pvcName clusterName spec namespace"
  from first assms have r: "result = \<lparr>PersistentVolumeClaimName = pvcName,
            SupplementalGroups = GetSupplementalGroups spec\<rparr>"
    and w1: "store w1 = store (snd ?c)"
    and ok: "fst ?c = None \<or> (\<exists>e. fst ?c = Some e \<and> IsAlreadyExists e)"
    by (auto simp: CreateIfNotExists_create split: prod.splits option.splits if_splits)
  have ok1: "(fst ?c1 = None \<or> (\<exists>e. fst ?c1 = Some e \<and> IsAlreadyExists e)) \<and>
             store (snd ?c1) = store w1"
  proof (cases ?m)
    case (Inl e)
    with ok w1 show ?thesis
      using Create_effect [of env w pvcName clusterName spec namespace]
            Create_effect [of env w1 pvcName clusterName spec namespace]
      by simp
  next
    case (Inr newpvc)
    with ok w1 show ?thesis
      using Create_effect [of env w pvcName clusterName spec namespace]
            Create_effect [of env w1 pvcName clusterName spec namespace]
      by (auto simp: PersistentVolumeClaims_Create_proj split: if_splits)
  qed
  from assms ok1 show "fst (CreateIfNotExists env w1 spec pvcName clusterName namespace) = result"
    by (auto simp: r CreateIfNotExists_create split: prod.splits option.splits)
  from assms ok1 show "fst (snd (CreateIfNotExists env w1 spec pvcName clusterName namespace)) = None"
    by (auto simp: CreateIfNotExists_create split: prod.splits option.splits)
  from assms ok1 show "store (snd (snd (CreateIfNotExists env w1 spec pvcName clusterName namespace))) = store w1"
    by (auto simp: CreateIfNotExists_create split: prod.splits option.splits)
qed

text \<open>The first call creates \<open>"pvc1"\<close>, the second finds it in the store; both succeed.\<close>

theorem CreateIfNotExists_already_exists_witness:
  "fst (snd (CreateIfNotExists demo_env empty_world (demo_spec ''create'' [] ''env=prod'')
               ''pvc1'' ''c1'' ''ns'')) = None \<and>
   store (snd (snd (CreateIfNotExists demo_env empty_world (demo_spec ''create'' [] ''env=prod'')
               ''pvc1'' ''c1'' ''ns''))) (''ns'', ''pvc1'') \<noteq> None \<and>
   fst (CreateIfNotExists demo_env
          (snd (snd (CreateIfNotExists demo_env empty_world (demo_spec ''create'' [] ''env=prod'')
                       ''pvc1'' ''c1'' ''ns'')))
          (demo_spec ''create'' [] ''env=prod'') ''pvc1'' ''c1'' ''ns'') =
     \<lparr>PersistentVolumeClaimName = ''pvc1'', SupplementalGroups = [65534]\<rparr> \<and>
   fst (snd (CreateIfNotExists demo_env
          (snd (snd (CreateIfNotExists demo_env empty_world (demo_spec ''create'' [] ''env=prod'')
                       ''pvc1'' ''c1'' ''ns'')))
          (demo_spec ''create'' [] ''env=prod'') ''pvc1'' ''c1'' ''ns'')) = None"
proof -
  let ?spec = "demo_spec ''create'' [] ''env=prod''"
  let ?first = "CreateIfNotExists demo_env empty_world ?spec ''pvc1'' ''c1'' ''ns''"
  have t: "StorageType ?spec = ''create'' \<or> StorageType ?spec = ''dynamic''"
    by (simp add: demo_spec_def)
  have ok: "fst (snd ?first) = None"
    and r: "fst ?first = \<lparr>PersistentVolumeClaimName = ''pvc1'', SupplementalGroups = [65534]\<rparr>"
    and st: "store (snd (snd ?first)) (''ns'', ''pvc1'') \<noteq> None"
    by (simp_all add: run_defs demo_defs)
  from ok have first: "?first = (fst ?first, None, snd (snd ?first))"
    by (metis prod.collapse)
  from CreateIfNotExists_already_exists [OF t, of demo_env empty_world "''pvc1''" "''c1''" "''ns''"
         _ _ "fst ?first" "snd (snd ?first)"] first
  have "fst (CreateIfNotExists demo_env (snd (snd ?first)) ?spec ''pvc1'' ''c1'' ''ns'') = fst ?first \<and>
        fst (snd (CreateIfNotExists demo_env (snd (snd ?first)) ?spec ''pvc1'' ''c1'' ''ns'')) = None"
    by blast
  with ok r st show ?thesis by simp
qed

text \<open>C2 as stated fails: when the data step fails no tablespace gets a key in the returned map,
  so its keys are not those of the cluster's tablespace mounts.\<close>

theorem CreateMissingPostgreSQLVolumes_short_circuit_counterexample:
  "fst (snd (snd (snd (CreateMissingPostgreSQLVolumes demo_env empty_world demo_cluster ''ns'' ''pvc1''
          (demo_spec ''create'' [] ''onlykey'') [''a'', ''b'', ''c''])))) =
     Some (errorString ''match labels is not formatted correctly'') \<and>
   range_order (TablespaceMounts (Spec demo_cluster)) [''a'', ''b'', ''c''] \<and>
   dom (fst (snd (snd (CreateMissingPostgreSQLVolumes demo_env empty_world demo_cluster ''ns'' ''pvc1''
          (demo_spec ''create'' [] ''onlykey'') [''a'', ''b'', ''c''])))) = {} \<and>
   dom (TablespaceMounts (Spec demo_cluster)) = {''a'', ''b'', ''c''} \<and>
   dom (fst (snd (snd (CreateMissingPostgreSQLVolumes demo_env empty_world demo_cluster ''ns'' ''pvc1''
          (demo_spec ''create'' [] ''onlykey'') [''a'', ''b'', ''c''])))) \<noteq>
     dom (TablespaceMounts (Spec demo_cluster))"
proof -
  have "CreateMissingPostgreSQLVolumes demo_env empty_world demo_cluster ''ns'' ''pvc1''
          (demo_spec ''create'' [] ''onlykey'') [''a'', ''b'', ''c''] =
        (\<lparr>PersistentVolumeClaimName = ''pvc1'', SupplementalGroups = [65534]\<rparr>,
         zero_StorageResult, Map.empty,
         Some (errorString ''match labels is not formatted correctly''),
         snd (snd (CreateIfNotExists demo_env empty_world (demo_spec ''create'' [] ''onlykey'')
                     ''pvc1'' ''c1'' ''ns'')))"
    by (simp add: CreateMissingPostgreSQLVolumes_def demo_malformed tablespace_loop_failed
          demo_cluster_def)
  moreover have "dom (TablespaceMounts (Spec demo_cluster)) = {''a'', ''b'', ''c''}"
    by (auto simp: demo_cluster_def)
  ultimately show ?thesis using demo_range_order(1) by simp
qed

text \<open>
  C2, amended. Once a step fails nothing more is attempted: the world returned is the one
  the failing step left (no further API call), the error is the failing step's error, the
  results of the steps before it are returned together with the failing step's own result,
  a skipped WAL result is the zero value, and the tablespace map holds exactly the
  tablespaces visited up to the failing one, so that indexing it at a skipped tablespace
  gives the zero value. The three cases are a failure of the data step, of the WAL step,
  and of the tablespace \<open>t\<close> visited after the tablespaces \<open>before\<close>. In the third case
  \<open>results\<close> pairs each tablespace of \<open>before\<close> with what \<open>CreateIfNotExists\<close> returned for
  it, each call made in the world the call before it left (\<open>attempt_in_order\<close>); the map
  returned holds these results, and the failing step runs in the world \<open>w3\<close> they left.
\<close>

theorem CreateMissingPostgreSQLVolumes_short_circuit:
  "(CreateIfNotExists env w dataStorageSpec pvcNamePrefix (PgclusterSpec.Name (Spec cluster))
        namespace = (dataVolume, Some e, w1) \<longrightarrow>
      CreateMissingPostgreSQLVolumes env w cluster namespace pvcNamePrefix dataStorageSpec order =
        (dataVolume, zero_StorageResult, Map.empty, Some e, w1)) \<and>
   (CreateIfNotExists env w dataStorageSpec pvcNamePrefix (PgclusterSpec.Name (Spec cluster))
        namespace = (dataVolume, None, w1) \<and>
    CreateIfNotExists env w1 (WALStorage (Spec cluster)) (pvcNamePrefix @ ''-wal'')
        (PgclusterSpec.Name (Spec cluster)) namespace = (walVolume, Some e, w2) \<longrightarrow>
      CreateMissingPostgreSQLVolumes env w cluster namespace pvcNamePrefix dataStorageSpec order =
        (dataVolume, walVolume, Map.empty, Some e, w2)) \<and>
   (CreateIfNotExists env w dataStorageSpec pvcNamePrefix (PgclusterSpec.Name (Spec cluster))
        namespace = (dataVolume, None, w1) \<and>
    CreateIfNotExists env w1 (WALStorage (Spec cluster)) (pvcNamePrefix @ ''-wal'')
        (PgclusterSpec.Name (Spec cluster)) namespace = (walVolume, None, w2) \<and>
    range_order (TablespaceMounts (Spec cluster)) (before @ t # after) \<and>
    attempt_in_order env w2 (PgclusterSpec.Name (Spec cluster)) namespace
        (tablespace_steps env cluster pvcNamePrefix before) = (results, None, w3) \<and>
    TablespaceMounts (Spec cluster) t = Some storageSpec \<and>
    CreateIfNotExists env w3 storageSpec (GetTablespacePVCName env pvcNamePrefix t)
        (PgclusterSpec.Name (Spec cluster)) namespace = (result, Some e, w4) \<longrightarrow>
      CreateMissingPostgreSQLVolumes env w cluster namespace pvcNamePrefix dataStorageSpec
          (before @ t # after) =
        (dataVolume, walVolume, (\<lambda>k. map_of results (TablespaceVolume k))(t \<mapsto> result),
         Some e, w4) \<and>
      map fst results = map TablespaceVolume before \<and>
      dom ((\<lambda>k. map_of results (TablespaceVolume k))(t \<mapsto> result)) = set before \<union> {t} \<and>
      (\<forall>k\<in>set after.
          index_results ((\<lambda>k. map_of results (TablespaceVolume k))(t \<mapsto> result)) k =
            zero_StorageResult))"
proof (intro conjI impI)
  assume "CreateIfNotExists env w dataStorageSpec pvcNamePrefix (PgclusterSpec.Name (Spec cluster))
        namespace = (dataVolume, Some e, w1)"
  then show "CreateMissingPostgreSQLVolumes env w cluster namespace pvcNamePrefix dataStorageSpec order =
        (dataVolume, zero_StorageResult, Map.empty, Some e, w1)"
    by (simp add: CreateMissingPostgreSQLVolumes_def tablespace_loop_failed)
next
  assume "CreateIfNotExists env w dataStorageSpec pvcNamePrefix (PgclusterSpec.Name (Spec cluster))
        namespace = (dataVolume, None, w1) \<and>
    CreateIfNotExists env w1 (WALStorage (Spec cluster)) (pvcNamePrefix @ ''-wal'')
        (PgclusterSpec.Name (Spec cluster)) namespace = (walVolume, Some e, w2)"
  then show "CreateMissingPostgreSQLVolumes env w cluster namespace pvcNamePrefix dataStorageSpec order =
        (dataVolume, walVolume, Map.empty, Some e, w2)"
    by (simp add: CreateMissingPostgreSQLVolumes_def tablespace_loop_failed)
next
  let ?volumes = "\<lambda>k. map_of results (TablespaceVolume k)"
  assume a: "CreateIfNotExists env w dataStorageSpec pvcNamePrefix (PgclusterSpec.Name (Spec cluster))
        namespace = (dataVolume, None, w1) \<and>
    CreateIfNotExists env w1 (WALStorage (Spec cluster)) (pvcNamePrefix @ ''-wal'')
        (PgclusterSpec.Name (Spec cluster)) namespace = (walVolume, None, w2) \<and>
    range_order (TablespaceMounts (Spec cluster)) (before @ t # after) \<and>
    attempt_in_order env w2 (PgclusterSpec.Name (Spec cluster)) namespace
        (tablespace_steps env cluster pvcNamePrefix before) = (results, None, w3) \<and>
    TablespaceMounts (Spec cluster) t = Some storageSpec \<and>
    CreateIfNotExists env w3 storageSpec (GetTablespacePVCName env pvcNamePrefix t)
        (PgclusterSpec.Name (Spec cluster)) namespace = (result, Some e, w4)"
  then have ro: "distinct (before @ t # after)"
    and keys: "set (before @ t # after) = dom (TablespaceMounts (Spec cluster))"
    by (simp_all add: range_order_def)
  from ro have db: "distinct before" by simp
  have "Map.empty ++ ?volumes = ?volumes" by simp
  with a tablespace_loop_attempts [OF db, of env cluster namespace pvcNamePrefix Map.empty w2]
  have prefix: "tablespace_loop env cluster namespace pvcNamePrefix before (Map.empty, None, w2) =
      (?volumes, None, w3)"
    by simp
  with a have loop: "tablespace_loop env cluster namespace pvcNamePrefix (before @ t # after)
      (Map.empty, None, w2) = (?volumes(t \<mapsto> result), Some e, w4)"
    by (simp add: tablespace_loop_append tablespace_loop_failed)
  from prefix tablespace_loop_dom [of env cluster namespace pvcNamePrefix before Map.empty w2
      ?volumes w3]
  have "dom ?volumes = set before \<inter> dom (TablespaceMounts (Spec cluster))"
    by simp
  with keys have d: "dom ?volumes = set before" by auto
  from a loop show "CreateMissingPostgreSQLVolumes env w cluster namespace pvcNamePrefix
      dataStorageSpec (before @ t # after) =
        (dataVolume, walVolume, ?volumes(t \<mapsto> result), Some e, w4)"
    by (simp add: CreateMissingPostgreSQLVolumes_def)
  from keys have "set before \<subseteq> dom (TablespaceMounts (Spec cluster))" by auto
  from tablespace_steps_declared [OF this, of env pvcNamePrefix] a
       attempt_in_order_success_keys [of env w2 "PgclusterSpec.Name (Spec cluster)" namespace
         "tablespace_steps env cluster pvcNamePrefix before" results w3]
  show "map fst results = map TablespaceVolume before" by simp
  from d show "dom (?volumes(t \<mapsto> result)) = set before \<union> {t}" by auto
  show "\<forall>k\<in>set after. index_results (?volumes(t \<mapsto> result)) k = zero_StorageResult"
  proof
    fix k assume "k \<in> set after"
    with ro have "k \<noteq> t" "k \<notin> set before" by auto
    with d have "(?volumes(t \<mapsto> result)) k = None" by auto
    then show "index_results (?volumes(t \<mapsto> result)) k = zero_StorageResult"
      by (simp add: index_results_def)
  qed
qed

text \<open>Data, WAL and tablespace \<open>"b"\<close> succeed, \<open>"a"\<close> fails, \<open>"c"\<close> is skipped: the map holds
  the claim created for \<open>"b"\<close> and the name requested for \<open>"a"\<close>, and the three create calls
  made before the failure stay made.\<close>

theorem CreateMissingPostgreSQLVolumes_short_circuit_witness:
  "range_order (TablespaceMounts (Spec demo_cluster)) [''b'', ''a'', ''c''] \<and>
   fst (snd (snd (snd (CreateMissingPostgreSQLVolumes demo_env empty_world demo_cluster ''ns'' ''pvc1''
          (demo_spec ''create'' [] []) [''b'', ''a'', ''c''])))) =
     Some (errorString ''match labels is not formatted correctly'') \<and>
   dom (fst (snd (snd (CreateMissingPostgreSQLVolumes demo_env empty_world demo_cluster ''ns'' ''pvc1''
          (demo_spec ''create'' [] []) [''b'', ''a'', ''c''])))) = {''b'', ''a''} \<and>
   index_results (fst (snd (snd (CreateMissingPostgreSQLVolumes demo_env empty_world demo_cluster
          ''ns'' ''pvc1'' (demo_spec ''create'' [] []) [''b'', ''a'', ''c'']))))  ''c'' =
     zero_StorageResult \<and>
   index_results (fst (snd (snd (CreateMissingPostgreSQLVolumes demo_env empty_world demo_cluster
          ''ns'' ''pvc1'' (demo_spec ''create'' [] []) [''b'', ''a'', ''c'']))))  ''b'' =
     \<lparr>PersistentVolumeClaimName = ''pvc1-tablespace-b'', SupplementalGroups = [65534]\<rparr> \<and>
   index_results (fst (snd (snd (CreateMissingPostgreSQLVolumes demo_env empty_world demo_cluster
          ''ns'' ''pvc1'' (demo_spec ''create'' [] []) [''b'', ''a'', ''c'']))))  ''a'' =
     \<lparr>PersistentVolumeClaimName = ''pvc1-tablespace-a'', SupplementalGroups = [65534]\<rparr> \<and>
   calls (snd (snd (snd (snd (CreateMissingPostgreSQLVolumes demo_env empty_world demo_cluster
          ''ns'' ''pvc1'' (demo_spec ''create'' [] []) [''b'', ''a'', ''c''])))))  =
     [CreateCall ''ns'' \<lparr>PersistentVolumeClaim.Name = ''pvc1'', Labels = Map.empty\<rparr>,
      CreateCall ''ns'' \<lparr>PersistentVolumeClaim.Name = ''pvc1-wal'', Labels = Map.empty\<rparr>,
      CreateCall ''ns'' \<lparr>PersistentVolumeClaim.Name = ''pvc1-tablespace-b'', Labels = Map.empty\<rparr>]"
proof -
  let ?cn = "PgclusterSpec.Name (Spec demo_cluster)"
  let ?data = "demo_spec ''create'' [] []"
  let ?d = "CreateIfNotExists demo_env empty_world ?data ''pvc1'' ?cn ''ns''"
  let ?wl = "CreateIfNotExists demo_env (snd (snd ?d)) (WALStorage (Spec demo_cluster))
               (''pvc1'' @ ''-wal'') ?cn ''ns''"
  let ?l = "attempt_in_order demo_env (snd (snd ?wl)) ?cn ''ns''
              (tablespace_steps demo_env demo_cluster ''pvc1'' [''b''])"
  let ?t = "CreateIfNotExists demo_env (snd (snd ?l)) (demo_spec ''create'' [] ''onlykey'')
              (GetTablespacePVCName demo_env ''pvc1'' ''a'') ?cn ''ns''"
  let ?e = "errorString ''match labels is not formatted correctly''"
  let ?volumes = "(\<lambda>k. map_of (fst ?l) (TablespaceVolume k))(''a'' \<mapsto> fst ?t)"
  have "fst (snd ?d) = None"
    by (simp add: demo_cluster_def run_defs demo_defs)
  then have d: "?d = (fst ?d, None, snd (snd ?d))"
    by (metis prod.collapse)
  have "fst (snd ?wl) = None"
    by (simp add: demo_cluster_def run_defs demo_defs)
  then have wl: "?wl = (fst ?wl, None, snd (snd ?wl))"
    by (metis prod.collapse)
  have "fst (snd ?l) = None"
    by (simp add: demo_cluster_def run_defs demo_defs)
  then have l: "?l = (fst ?l, None, snd (snd ?l))"
    by (metis prod.collapse)
  have "fst (snd ?t) = Some ?e"
    by (simp add: CreateIfNotExists_def Create_def demo_spec_def Let_def)
  then have t: "?t = (fst ?t, Some ?e, snd (snd ?t))"
    by (metis prod.collapse)
  have m: "TablespaceMounts (Spec demo_cluster) ''a'' = Some (demo_spec ''create'' [] ''onlykey'')"
    by (simp add: demo_cluster_def)
  have ro: "range_order (TablespaceMounts (Spec demo_cluster)) ([''b''] @ ''a'' # [''c''])"
    using demo_range_order(2) by simp
  note inst = CreateMissingPostgreSQLVolumes_short_circuit
    [where env = demo_env and w = empty_world and dataStorageSpec = ?data
       and pvcNamePrefix = "''pvc1''" and cluster = demo_cluster and namespace = "''ns''"
       and dataVolume = "fst ?d" and ?w1.0 = "snd (snd ?d)"
       and walVolume = "fst ?wl" and ?w2.0 = "snd (snd ?wl)"
       and before = "[''b'']" and t = "''a''" and after = "[''c'']"
       and results = "fst ?l" and ?w3.0 = "snd (snd ?l)"
       and storageSpec = "demo_spec ''create'' [] ''onlykey''"
       and result = "fst ?t" and e = ?e and ?w4.0 = "snd (snd ?t)"]
  note res = inst [THEN conjunct2, THEN conjunct2, THEN mp, OF conjI [OF d conjI [OF wl conjI
        [OF ro conjI [OF l conjI [OF m t]]]]]]
  have app: "[''b''] @ ''a'' # [''c''] = [''b'', ''a'', ''c'']" by simp
  note eq = res [THEN conjunct1, unfolded app]
  have dm: "dom ?volumes = {''b'', ''a''}"
    using res [THEN conjunct2, THEN conjunct2, THEN conjunct1]
    by (auto simp del: attempt_in_order.simps tablespace_steps.simps)
  have ix: "index_results ?volumes ''c'' = zero_StorageResult"
    using res [THEN conjunct2, THEN conjunct2, THEN conjunct2]
    by (simp del: attempt_in_order.simps tablespace_steps.simps)
  have b: "index_results ?volumes ''b'' =
      \<lparr>PersistentVolumeClaimName = ''pvc1-tablespace-b'', SupplementalGroups = [65534]\<rparr>"
    by (simp add: index_results_def demo_cluster_def run_defs demo_defs)
  have a: "index_results ?volumes ''a'' =
      \<lparr>PersistentVolumeClaimName = ''pvc1-tablespace-a'', SupplementalGroups = [65534]\<rparr>"
    by (simp add: index_results_def demo_cluster_def run_defs demo_defs)
  have c: "calls (snd (snd ?t)) =
     [CreateCall ''ns'' \<lparr>PersistentVolumeClaim.Name = ''pvc1'', Labels = Map.empty\<rparr>,
      CreateCall ''ns'' \<lparr>PersistentVolumeClaim.Name = ''pvc1-wal'', Labels = Map.empty\<rparr>,
      CreateCall ''ns'' \<lparr>PersistentVolumeClaim.Name = ''pvc1-tablespace-b'', Labels = Map.empty\<rparr>]"
    by (simp add: demo_cluster_def run_defs demo_defs)
  show ?thesis
    unfolding eq fst_conv snd_conv using demo_range_order(2) dm ix a b c by blast
qed

text \<open>C3 as stated fails: a \<open>"dynamic"\<close> spec with the selector \<open>"onlykey"\<close>, and a \<open>"create"\<close>
  spec with the selector \<open>"=prod"\<close> (an empty key), are provisioned with one API call each.\<close>

theorem Create_malformed_selector_counterexample:
  "StorageType (demo_spec ''dynamic'' [] ''onlykey'') \<in> {''create'', ''dynamic''} \<and>
   PgStorageSpec.MatchLabels (demo_spec ''dynamic'' [] ''onlykey'') \<noteq> [] \<and>
   \<not> two_nonempty_tokens (PgStorageSpec.MatchLabels (demo_spec ''dynamic'' [] ''onlykey'')) \<and>
   fst (snd (CreateIfNotExists demo_env empty_world (demo_spec ''dynamic'' [] ''onlykey'')
               ''pvc1'' ''c1'' ''ns'')) = None \<and>
   calls (snd (snd (CreateIfNotExists demo_env empty_world (demo_spec ''dynamic'' [] ''onlykey'')
               ''pvc1'' ''c1'' ''ns''))) =
     [CreateCall ''ns'' \<lparr>PersistentVolumeClaim.Name = ''pvc1'', Labels = Map.empty\<rparr>] \<and>
   StorageType (demo_spec ''create'' [] ''=prod'') \<in> {''create'', ''dynamic''} \<and>
   PgStorageSpec.MatchLabels (demo_spec ''create'' [] ''=prod'') \<noteq> [] \<and>
   \<not> two_nonempty_tokens (PgStorageSpec.MatchLabels (demo_spec ''create'' [] ''=prod'')) \<and>
   fst (snd (CreateIfNotExists demo_env empty_world (demo_spec ''create'' [] ''=prod'')
               ''pvc1'' ''c1'' ''ns'')) = None \<and>
   calls (snd (snd (CreateIfNotExists demo_env empty_world (demo_spec ''create'' [] ''=prod'')
               ''pvc1'' ''c1'' ''ns''))) =
     [CreateCall ''ns'' \<lparr>PersistentVolumeClaim.Name = ''pvc1'', Labels = Map.empty\<rparr>]"
  by (simp add: run_defs demo_defs two_nonempty_tokens_def)

text \<open>
  C3, amended. For a \<open>"create"\<close> spec with a non-empty selector that does not split on
  \<open>"="\<close> into exactly two tokens, \<open>Create\<close> and \<open>CreateIfNotExists\<close> return the error
  "match labels is not formatted correctly" and make no call to the orchestration API.
\<close>

theorem Create_malformed_selector:
  assumes "StorageType spec = ''create''"
    and "PgStorageSpec.MatchLabels spec \<noteq> []"
    and "length (Split (PgStorageSpec.MatchLabels spec) CHR ''='') \<noteq> 2"
  shows
    "fst (Create env w pvcName clusterName spec namespace) =
       Some (errorString ''match labels is not formatted correctly'') \<and>
     calls (snd (Create env w pvcName clusterName spec namespace)) = calls w \<and>
     store (snd (Create env w pvcName clusterName spec namespace)) = store w \<and>
     fst (snd (CreateIfNotExists env w spec pvcName clusterName namespace)) =
       Some (errorString ''match labels is not formatted correctly'') \<and>
     calls (snd (snd (CreateIfNotExists env w spec pvcName clusterName namespace))) = calls w \<and>
     store (snd (snd (CreateIfNotExists env w spec pvcName clusterName namespace))) = store w"
proof -
  from assms have c: "Create env w pvcName clusterName spec namespace =
      (Some (errorString ''match labels is not formatted correctly''),
       log_Error (PgStorageSpec.MatchLabels spec @ '' MatchLabels is not formatted correctly'')
         (log_Debug (''matchlabels from spec is ['' @ PgStorageSpec.MatchLabels spec @ '']'')
           (log_Debug ''in createPVC'' w)))"
    by (simp add: Create_def Let_def)
  from assms(1) show ?thesis
    by (simp add: CreateIfNotExists_create c)
qed

text \<open>The selector \<open>"onlykey"\<close>.\<close>

theorem Create_malformed_selector_witness:
  "StorageType (demo_spec ''create'' [] ''onlykey'') = ''create'' \<and>
   PgStorageSpec.MatchLabels (demo_spec ''create'' [] ''onlykey'') \<noteq> [] \<and>
   length (Split (PgStorageSpec.MatchLabels (demo_spec ''create'' [] ''onlykey'')) CHR ''='') \<noteq> 2 \<and>
   fst (snd (CreateIfNotExists demo_env empty_world (demo_spec ''create'' [] ''onlykey'')
               ''pvc1'' ''c1'' ''ns'')) =
     Some (errorString ''match labels is not formatted correctly'') \<and>
   calls (snd (snd (CreateIfNotExists demo_env empty_world (demo_spec ''create'' [] ''onlykey'')
               ''pvc1'' ''c1'' ''ns''))) = []"
proof -
  have h1: "StorageType (demo_spec ''create'' [] ''onlykey'') = ''create''"
    and h2: "PgStorageSpec.MatchLabels (demo_spec ''create'' [] ''onlykey'') \<noteq> []"
    and h3: "length (Split (PgStorageSpec.MatchLabels (demo_spec ''create'' [] ''onlykey'')) CHR ''='') \<noteq> 2"
    by (simp_all add: demo_spec_def)
  from Create_malformed_selector [OF h1 h2 h3, of demo_env empty_world "''pvc1''" "''c1''" "''ns''"]
       h1 h2 h3
  show ?thesis by (simp add: empty_world_def)
qed

text \<open>C5 as stated fails: the order of the tablespaces is the order \<open>range\<close> takes, and two such
  orders of the same cluster give different API calls (in the second, \<open>"b"\<close> is provisioned
  before \<open>"a"\<close> fails).\<close>

theorem CreateMissingPostgreSQLVolumes_order_counterexample:
  "range_order (TablespaceMounts (Spec demo_cluster)) [''a'', ''b'', ''c''] \<and>
   range_order (TablespaceMounts (Spec demo_cluster)) [''b'', ''a'', ''c''] \<and>
   calls (snd (snd (snd (snd (CreateMissingPostgreSQLVolumes demo_env empty_world demo_cluster
            ''ns'' ''pvc1'' (demo_spec ''emptydir'' [] []) [''a'', ''b'', ''c''])))))
     = [CreateCall ''ns'' \<lparr>PersistentVolumeClaim.Name = ''pvc1-wal'', Labels = Map.empty\<rparr>] \<and>
   calls (snd (snd (snd (snd (CreateMissingPostgreSQLVolumes demo_env empty_world demo_cluster
            ''ns'' ''pvc1'' (demo_spec ''emptydir'' [] []) [''b'', ''a'', ''c''])))))
     = [CreateCall ''ns'' \<lparr>PersistentVolumeClaim.Name = ''pvc1-wal'', Labels = Map.empty\<rparr>,
        CreateCall ''ns'' \<lparr>PersistentVolumeClaim.Name = ''pvc1-tablespace-b'', Labels = Map.empty\<rparr>]"
  using demo_range_order
  by (simp add: CreateMissingPostgreSQLVolumes_def demo_cluster_def run_defs demo_defs
        zero_StorageResult_def)

text \<open>
  C5, amended. \<open>CreateMissingPostgreSQLVolumes\<close> attempts the data volume, then the WAL
  volume, then the tablespaces in the order in which \<open>range\<close> yields them in that run, and
  stops after the first failure: it returns what attempting that sequence in order returns.
\<close>

theorem CreateMissingPostgreSQLVolumes_in_order:
  assumes "range_order (TablespaceMounts (Spec cluster)) order"
  shows "CreateMissingPostgreSQLVolumes env w cluster namespace pvcNamePrefix dataStorageSpec order =
     (case attempt_in_order env w (PgclusterSpec.Name (Spec cluster)) namespace
             (volume_steps env cluster pvcNamePrefix dataStorageSpec order) of
        (results, err, w') \<Rightarrow>
          (result_of DataVolume results, result_of WALVolume results,
           (\<lambda>t. map_of results (TablespaceVolume t)), err, w'))"
proof -
  from assms have dist: "distinct order" by (simp add: range_order_def)
  obtain dv e1 w1 where d: "CreateIfNotExists env w dataStorageSpec pvcNamePrefix
      (PgclusterSpec.Name (Spec cluster)) namespace = (dv, e1, w1)"
    by (metis prod_cases3)
  show ?thesis
  proof (cases e1)
    case (Some e)
    with d show ?thesis
      by (simp add: CreateMissingPostgreSQLVolumes_def volume_steps_def tablespace_loop_failed
            result_of_def)
  next
    case None
    obtain wv e2 w2 where wl: "CreateIfNotExists env w1 (WALStorage (Spec cluster))
        (pvcNamePrefix @ ''-wal'') (PgclusterSpec.Name (Spec cluster)) namespace = (wv, e2, w2)"
      by (metis prod_cases3)
    show ?thesis
    proof (cases e2)
      case (Some e)
      with d None wl show ?thesis
        by (simp add: CreateMissingPostgreSQLVolumes_def volume_steps_def tablespace_loop_failed
              result_of_def)
    next
      case n2: None
      obtain rs e3 w3 where a: "attempt_in_order env w2 (PgclusterSpec.Name (Spec cluster)) namespace
           (tablespace_steps env cluster pvcNamePrefix order) = (rs, e3, w3)"
        by (metis prod_cases3)
      have "Map.empty ++ (\<lambda>t. map_of rs (TablespaceVolume t)) = (\<lambda>t. map_of rs (TablespaceVolume t))"
        by simp
      with d None wl n2 a tablespace_loop_attempts [OF dist, of env cluster namespace pvcNamePrefix Map.empty w2]
      show ?thesis
        by (simp add: CreateMissingPostgreSQLVolumes_def volume_steps_def result_of_def)
    qed
  qed
qed

text \<open>With the order \<open>"b"\<close>, \<open>"a"\<close>, \<open>"c"\<close> the volumes attempted are data, WAL, \<open>"b"\<close> and \<open>"a"\<close>.\<close>

theorem CreateMissingPostgreSQLVolumes_in_order_witness:
  "range_order (TablespaceMounts (Spec demo_cluster)) [''b'', ''a'', ''c''] \<and>
   CreateMissingPostgreSQLVolumes demo_env empty_world demo_cluster ''ns'' ''pvc1''
       (demo_spec ''emptydir'' [] []) [''b'', ''a'', ''c''] =
     (case attempt_in_order demo_env empty_world ''c1'' ''ns''
             (volume_steps demo_env demo_cluster ''pvc1'' (demo_spec ''emptydir'' [] [])
                [''b'', ''a'', ''c'']) of
        (results, err, w') \<Rightarrow>
          (result_of DataVolume results, result_of WALVolume results,
           (\<lambda>t. map_of results (TablespaceVolume t)), err, w')) \<and>
   map fst (fst (attempt_in_order demo_env empty_world ''c1'' ''ns''
             (volume_steps demo_env demo_cluster ''pvc1'' (demo_spec ''emptydir'' [] [])
                [''b'', ''a'', ''c'']))) =
     [DataVolume, WALVolume, TablespaceVolume ''b'', TablespaceVolume ''a'']"
proof -
  have n: "PgclusterSpec.Name (Spec demo_cluster) = ''c1''"
    by (simp add: demo_cluster_def)
  have "map fst (fst (attempt_in_order demo_env empty_world ''c1'' ''ns''
             (volume_steps demo_env demo_cluster ''pvc1'' (demo_spec ''emptydir'' [] [])
                [''b'', ''a'', ''c'']))) =
     [DataVolume, WALVolume, TablespaceVolume ''b'', TablespaceVolume ''a'']"
    by (simp add: volume_steps_def demo_cluster_def run_defs demo_defs)
  with CreateMissingPostgreSQLVolumes_in_order [OF demo_range_order(2), of demo_env empty_world
         "''ns''" "''pvc1''" "demo_spec ''emptydir'' [] []"] demo_range_order(2) n
  show ?thesis by simp
qed

text \<open>
  C7. \<open>DeleteIfExists\<close> looks the claim up once. When the store holds it with the removal
  label equal to \<open>"true"\<close> it issues one delete call and returns that call's outcome; when
  the store holds it with any other label value it issues no delete call and returns no
  error; when the store does not hold it, it issues no delete call and returns no error;
  and when the lookup itself fails it issues no delete call and returns the lookup's error.
\<close>

theorem DeleteIfExists_gate:
  "(get_fault env namespace name = None \<and> store w (namespace, name) = Some p \<and>
    index_map (Labels p) (LABEL_PGREMOVE env) = ''true'' \<longrightarrow>
      calls (snd (DeleteIfExists env w name namespace)) =
        calls w @ [GetCall namespace name, DeleteCall namespace name] \<and>
      fst (DeleteIfExists env w name namespace) = delete_fault env namespace name \<and>
      (delete_fault env namespace name = None \<longrightarrow>
         store (snd (DeleteIfExists env w name namespace)) = (store w)((namespace, name) := None))) \<and>
   (get_fault env namespace name = None \<and> store w (namespace, name) = Some p \<and>
    index_map (Labels p) (LABEL_PGREMOVE env) \<noteq> ''true'' \<longrightarrow>
      calls (snd (DeleteIfExists env w name namespace)) = calls w @ [GetCall namespace name] \<and>
      fst (DeleteIfExists env w name namespace) = None \<and>
      store (snd (DeleteIfExists env w name namespace)) = store w) \<and>
   (get_fault env namespace name = None \<and> store w (namespace, name) = None \<longrightarrow>
      DeleteIfExists env w name namespace =
        (None, w\<lparr>calls := calls w @ [GetCall namespace name]\<rparr>)) \<and>
   (get_fault env namespace name = Some e \<longrightarrow>
      DeleteIfExists env w name namespace =
        (Some e, w\<lparr>calls := calls w @ [GetCall namespace name]\<rparr>))"
  by (auto simp: DeleteIfExists_def GetPVCIfExists_def DeletePVC_def Let_def log_Debug_def
      split: option.splits)

text \<open>A claim labelled \<open>"true"\<close> is deleted, one labelled \<open>"True"\<close> is kept, and an absent one is
  no error.\<close>

theorem DeleteIfExists_gate_witness:
  "calls (snd (DeleteIfExists demo_env (demo_world (demo_claim ''pvc1'' ''true'')) ''pvc1'' ''ns'')) =
     [GetCall ''ns'' ''pvc1'', DeleteCall ''ns'' ''pvc1''] \<and>
   fst (DeleteIfExists demo_env (demo_world (demo_claim ''pvc1'' ''true'')) ''pvc1'' ''ns'') = None \<and>
   store (snd (DeleteIfExists demo_env (demo_world (demo_claim ''pvc1'' ''true'')) ''pvc1'' ''ns''))
     (''ns'', ''pvc1'') = None \<and>
   calls (snd (DeleteIfExists demo_env (demo_world (demo_claim ''pvc1'' ''True'')) ''pvc1'' ''ns'')) =
     [GetCall ''ns'' ''pvc1''] \<and>
   fst (DeleteIfExists demo_env (demo_world (demo_claim ''pvc1'' ''True'')) ''pvc1'' ''ns'') = None \<and>
   store (snd (DeleteIfExists demo_env (demo_world (demo_claim ''pvc1'' ''True'')) ''pvc1'' ''ns''))
     (''ns'', ''pvc1'') = Some (demo_claim ''pvc1'' ''True'') \<and>
   DeleteIfExists demo_env empty_world ''pvc1'' ''ns'' =
     (None, empty_world\<lparr>calls := [GetCall ''ns'' ''pvc1'']\<rparr>)"
proof -
  have a: "get_fault demo_env ''ns'' ''pvc1'' = None"
    and d: "delete_fault demo_env ''ns'' ''pvc1'' = None"
    and l: "LABEL_PGREMOVE demo_env = ''pg-remove''"
    by (simp_all add: demo_env_def)
  have t: "store (demo_world (demo_claim ''pvc1'' ''true'')) (''ns'', ''pvc1'') =
             Some (demo_claim ''pvc1'' ''true'')"
    and f: "store (demo_world (demo_claim ''pvc1'' ''True'')) (''ns'', ''pvc1'') =
             Some (demo_claim ''pvc1'' ''True'')"
    and n: "store empty_world (''ns'', ''pvc1'') = None"
    and c: "calls (demo_world (demo_claim ''pvc1'' ''true'')) = []"
           "calls (demo_world (demo_claim ''pvc1'' ''True'')) = []" "calls empty_world = []"
    by (simp_all add: demo_world_def demo_claim_def empty_world_def)
  have it: "index_map (Labels (demo_claim ''pvc1'' ''true'')) (LABEL_PGREMOVE demo_env) = ''true''"
    and "if": "index_map (Labels (demo_claim ''pvc1'' ''True'')) (LABEL_PGREMOVE demo_env) \<noteq> ''true''"
    by (simp_all add: l demo_claim_def index_map_def)
  from DeleteIfExists_gate [of demo_env "''ns''" "''pvc1''" "demo_world (demo_claim ''pvc1'' ''true'')"
         "demo_claim ''pvc1'' ''true''"]
       DeleteIfExists_gate [of demo_env "''ns''" "''pvc1''" "demo_world (demo_claim ''pvc1'' ''True'')"
         "demo_claim ''pvc1'' ''True''"]
       DeleteIfExists_gate [of demo_env "''ns''" "''pvc1''" empty_world]
       a d t f n c it "if"
  show ?thesis by simp
qed

end
